theory Spec2Isabelle
  imports Complex_Main "HOL-Library.Word"
begin

section \<open>Elementary transform sequences (roboticstoolbox/robot/ETS.py)\<close>

text \<open>
  A shallow embedding of the classes \<^verbatim>\<open>SuperETS\<close> and \<^verbatim>\<open>ETS\<close>. A 4x4 NumPy array
  is either a float array, idealised as a matrix over the real numbers (products exact
  and associative), or an int64 array, a matrix of 64-bit words whose products wrap
  around as NumPy's do. Every Python exception is a result \<open>Inl e\<close>. What the module
  imports from \<^verbatim>\<open>spatialmath\<close> and \<^verbatim>\<open>numpy\<close> is modelled by its documented behaviour
  (\<^verbatim>\<open>trotx\<close>, \<^verbatim>\<open>troty\<close>, \<^verbatim>\<open>trotz\<close>, \<^verbatim>\<open>getunit\<close>, \<^verbatim>\<open>getvector\<close>, \<^verbatim>\<open>SE3\<close>,
  \<^verbatim>\<open>np.cross\<close>, the operator \<^verbatim>\<open>@\<close>) or taken as a parameter (\<^verbatim>\<open>np.linalg.inv\<close>).
\<close>

subsection \<open>Exceptions\<close>

datatype error =
  TypeError | IndexError | ValueError | AttributeError | UnboundLocalError
  | NameError | LinAlgError

definition bind :: "error + 'a \<Rightarrow> ('a \<Rightarrow> error + 'b) \<Rightarrow> error + 'b" where
  "bind m f = (case m of Inl e \<Rightarrow> Inl e | Inr x \<Rightarrow> f x)"

subsection \<open>Numbers and 4x4 arrays\<close>

text \<open>
  A number handed to a factory: a Python \<^verbatim>\<open>int\<close>, taken in the range of NumPy's
  int64 (the type of the array that the translation factories build from it), or a
  \<^verbatim>\<open>float\<close>.
\<close>

datatype pynum = PyInt "64 word" | PyFloat real

fun as_real :: "pynum \<Rightarrow> real" where
  "as_real (PyInt w) = real_of_int (sint w)"
| "as_real (PyFloat r) = r"

datatype 'a array4 = Mat4
  (m00: 'a) (m01: 'a) (m02: 'a) (m03: 'a)
  (m10: 'a) (m11: 'a) (m12: 'a) (m13: 'a)
  (m20: 'a) (m21: 'a) (m22: 'a) (m23: 'a)
  (m30: 'a) (m31: 'a) (m32: 'a) (m33: 'a)

type_synonym mat4 = "real array4"

type_synonym imat4 = "64 word array4"

text \<open>\<^verbatim>\<open>np.eye(4)\<close>, a float array.\<close>

definition eye4 :: mat4 where
  "eye4 = Mat4 1 0 0 0  0 1 0 0  0 0 1 0  0 0 0 1"

text \<open>
  The matrix product in the arithmetic of the entries: exact on reals, modulo
  \<open>2 ^ 64\<close> on int64 words.
\<close>

fun matmul :: "'a::comm_semiring_0 array4 \<Rightarrow> 'a array4 \<Rightarrow> 'a array4" where
  "matmul (Mat4 a00 a01 a02 a03 a10 a11 a12 a13 a20 a21 a22 a23 a30 a31 a32 a33)
          (Mat4 b00 b01 b02 b03 b10 b11 b12 b13 b20 b21 b22 b23 b30 b31 b32 b33) =
     Mat4
      (a00*b00 + a01*b10 + a02*b20 + a03*b30) (a00*b01 + a01*b11 + a02*b21 + a03*b31)
      (a00*b02 + a01*b12 + a02*b22 + a03*b32) (a00*b03 + a01*b13 + a02*b23 + a03*b33)
      (a10*b00 + a11*b10 + a12*b20 + a13*b30) (a10*b01 + a11*b11 + a12*b21 + a13*b31)
      (a10*b02 + a11*b12 + a12*b22 + a13*b32) (a10*b03 + a11*b13 + a12*b23 + a13*b33)
      (a20*b00 + a21*b10 + a22*b20 + a23*b30) (a20*b01 + a21*b11 + a22*b21 + a23*b31)
      (a20*b02 + a21*b12 + a22*b22 + a23*b32) (a20*b03 + a21*b13 + a22*b23 + a23*b33)
      (a30*b00 + a31*b10 + a32*b20 + a33*b30) (a30*b01 + a31*b11 + a32*b21 + a33*b31)
      (a30*b02 + a31*b12 + a32*b22 + a33*b32) (a30*b03 + a31*b13 + a32*b23 + a33*b33)"

text \<open>
  A 4x4 array of dtype float64 or int64, and its entries read as reals (the promotion
  of an int64 array to float, taken as exact).
\<close>

datatype ndarray = FloatArr mat4 | IntArr imat4

definition to_float :: "imat4 \<Rightarrow> mat4" where
  "to_float W = map_array4 (\<lambda>w. real_of_int (sint w)) W"

fun as_float :: "ndarray \<Rightarrow> mat4" where
  "as_float (FloatArr M) = M"
| "as_float (IntArr W) = to_float W"

text \<open>
  The operator \<^verbatim>\<open>@\<close> on two 4x4 arrays: two int64 arrays give an int64 array, with
  wrap-around; as soon as one operand is a float array the other is promoted and the
  result is a float array.
\<close>

fun array_matmul :: "ndarray \<Rightarrow> ndarray \<Rightarrow> ndarray" where
  "array_matmul (IntArr A) (IntArr B) = IntArr (matmul A B)"
| "array_matmul A B = FloatArr (matmul (as_float A) (as_float B))"

text \<open>
  \<^verbatim>\<open>A @ B\<close> where the right operand may be \<^verbatim>\<open>None\<close> (the field \<^verbatim>\<open>T\<close> of a joint
  element): NumPy raises TypeError.
\<close>

definition matmul_opt :: "ndarray \<Rightarrow> ndarray option \<Rightarrow> error + ndarray" where
  "matmul_opt A B = (case B of None \<Rightarrow> Inl TypeError | Some B' \<Rightarrow> Inr (array_matmul A B'))"

text \<open>
  The rotation matrices \<^verbatim>\<open>trotx\<close>, \<^verbatim>\<open>troty\<close>, \<^verbatim>\<open>trotz\<close> imported from
  \<^verbatim>\<open>spatialmath.base\<close> (angle in radians; always float arrays), and \<^verbatim>\<open>getunit\<close> of
  the same module (a value in degrees becomes a float).
\<close>

definition trotx :: "pynum \<Rightarrow> ndarray" where
  "trotx v =
     FloatArr (Mat4 1 0 0 0  0 (cos (as_real v)) (- sin (as_real v)) 0
                    0 (sin (as_real v)) (cos (as_real v)) 0  0 0 0 1)"

definition troty :: "pynum \<Rightarrow> ndarray" where
  "troty v =
     FloatArr (Mat4 (cos (as_real v)) 0 (sin (as_real v)) 0  0 1 0 0
                    (- sin (as_real v)) 0 (cos (as_real v)) 0  0 0 0 1)"

definition trotz :: "pynum \<Rightarrow> ndarray" where
  "trotz v =
     FloatArr (Mat4 (cos (as_real v)) (- sin (as_real v)) 0 0
                    (sin (as_real v)) (cos (as_real v)) 0 0  0 0 1 0  0 0 0 1)"

definition getunit :: "pynum \<Rightarrow> string \<Rightarrow> error + pynum" where
  "getunit v unit =
     (if unit = ''rad'' then Inr v
      else if unit = ''deg'' then Inr (PyFloat (as_real v * pi / 180))
      else Inl ValueError)"

text \<open>
  The constructor \<^verbatim>\<open>SE3(T)\<close> of \<^verbatim>\<open>spatialmath\<close> on a 4x4 array, with its default
  validity check: the rotation block has orthonormal rows and the last row is
  \<open>0 0 0 1\<close>; any other array is rejected with ValueError. Over the reals the check
  is exact. A pose is represented by the real matrix of its entries, so the attribute
  \<^verbatim>\<open>.A\<close> is the identity.
\<close>

definition ishom :: "mat4 \<Rightarrow> bool" where
  "ishom M =
     (m30 M = 0 \<and> m31 M = 0 \<and> m32 M = 0 \<and> m33 M = 1
      \<and> m00 M * m00 M + m01 M * m01 M + m02 M * m02 M = 1
      \<and> m10 M * m10 M + m11 M * m11 M + m12 M * m12 M = 1
      \<and> m20 M * m20 M + m21 M * m21 M + m22 M * m22 M = 1
      \<and> m00 M * m10 M + m01 M * m11 M + m02 M * m12 M = 0
      \<and> m00 M * m20 M + m01 M * m21 M + m02 M * m22 M = 0
      \<and> m10 M * m20 M + m11 M * m21 M + m12 M * m22 M = 0)"

definition SE3 :: "ndarray \<Rightarrow> error + mat4" where
  "SE3 A = (if ishom (as_float A) then Inr (as_float A) else Inl ValueError)"

subsection \<open>The element tuple and the constructor\<close>

text \<open>
  \<^verbatim>\<open>namedtuple('ETS3', 'eta axis_func axis joint T')\<close>. Every field that can hold
  \<^verbatim>\<open>None\<close> is an option. A transform function is modelled by the array it returns for
  a number. A sequence is the list \<^verbatim>\<open>self.data\<close> of such tuples.
\<close>

record ETS3 =
  et_eta :: "pynum option"
  et_axis_func :: "(pynum \<Rightarrow> ndarray) option"
  et_axis :: "string option"
  et_joint :: bool
  et_T :: "ndarray option"

type_synonym ETS = "ETS3 list"

text \<open>The first argument of \<^verbatim>\<open>__init__\<close>: \<^verbatim>\<open>None\<close>, an array, a callable, or anything else.\<close>

datatype axis_func_arg = ArgNone | Ndarray ndarray | Callable "pynum \<Rightarrow> ndarray" | Other

definition init :: "axis_func_arg \<Rightarrow> string option \<Rightarrow> pynum option \<Rightarrow> string \<Rightarrow> error + ETS" where
  "init af ax eta0 unit =
     (if af = ArgNone \<and> ax = None \<and> eta0 = None then Inr []
      else case af of
        Ndarray M \<Rightarrow>
          Inr [\<lparr>et_eta = eta0, et_axis_func = None, et_axis = Some ''C'',
                et_joint = False, et_T = Some M\<rparr>]
      | Callable f \<Rightarrow>
          (case eta0 of
             None \<Rightarrow>
               if unit \<noteq> ''rad'' then Inl ValueError
               else Inr [\<lparr>et_eta = None, et_axis_func = Some f, et_axis = ax,
                          et_joint = True, et_T = None\<rparr>]
           | Some v \<Rightarrow>
               bind (getunit v unit) (\<lambda>v'.
                 Inr [\<lparr>et_eta = Some v', et_axis_func = Some f, et_axis = ax,
                       et_joint = False, et_T = Some (f v')\<rparr>]))
      | _ \<Rightarrow> Inl ValueError)"

text \<open>\<^verbatim>\<open>__mul__\<close> and \<^verbatim>\<open>__imul__\<close>: a fresh sequence holding both lists.\<close>

definition mul :: "ETS \<Rightarrow> ETS \<Rightarrow> ETS" where
  "mul self rest = self @ rest"

definition imul :: "ETS \<Rightarrow> ETS \<Rightarrow> ETS" where
  "imul self rest = self @ rest"

text \<open>
  \<^verbatim>\<open>__getitem__\<close> at an integer index (negative indices count from the end): a
  sequence of length one, or IndexError.
\<close>

definition getitem :: "ETS \<Rightarrow> int \<Rightarrow> error + ETS" where
  "getitem self i =
     (let k = int (length self); j = (if i < 0 then k + i else i)
      in if 0 \<le> j \<and> j < k then Inr [self ! nat j] else Inl IndexError)"

subsection \<open>Factories\<close>

definition rx :: "pynum option \<Rightarrow> string \<Rightarrow> error + ETS" where
  "rx eta0 unit = init (Callable trotx) (Some ''Rx'') eta0 unit"

definition ry :: "pynum option \<Rightarrow> string \<Rightarrow> error + ETS" where
  "ry eta0 unit = init (Callable troty) (Some ''Ry'') eta0 unit"

definition rz :: "pynum option \<Rightarrow> string \<Rightarrow> error + ETS" where
  "rz eta0 unit = init (Callable trotz) (Some ''Rz'') eta0 unit"

text \<open>
  The local functions \<^verbatim>\<open>axis_func\<close> of \<^verbatim>\<open>tx\<close>, \<^verbatim>\<open>ty\<close>, \<^verbatim>\<open>tz\<close>:
  \<^verbatim>\<open>np.array\<close> of a nested list of Python ints and \<^verbatim>\<open>eta\<close>, so an int64 array when
  \<^verbatim>\<open>eta\<close> is an \<^verbatim>\<open>int\<close> and a float array when it is a \<^verbatim>\<open>float\<close>.
\<close>

fun tx_func :: "pynum \<Rightarrow> ndarray" where
  "tx_func (PyInt w) = IntArr (Mat4 1 0 0 w  0 1 0 0  0 0 1 0  0 0 0 1)"
| "tx_func (PyFloat r) = FloatArr (Mat4 1 0 0 r  0 1 0 0  0 0 1 0  0 0 0 1)"

fun ty_func :: "pynum \<Rightarrow> ndarray" where
  "ty_func (PyInt w) = IntArr (Mat4 1 0 0 0  0 1 0 w  0 0 1 0  0 0 0 1)"
| "ty_func (PyFloat r) = FloatArr (Mat4 1 0 0 0  0 1 0 r  0 0 1 0  0 0 0 1)"

fun tz_func :: "pynum \<Rightarrow> ndarray" where
  "tz_func (PyInt w) = IntArr (Mat4 1 0 0 0  0 1 0 0  0 0 1 w  0 0 0 1)"
| "tz_func (PyFloat r) = FloatArr (Mat4 1 0 0 0  0 1 0 0  0 0 1 r  0 0 0 1)"

definition tx :: "pynum option \<Rightarrow> error + ETS" where
  "tx eta0 = init (Callable tx_func) (Some ''tx'') eta0 ''rad''"

definition ty :: "pynum option \<Rightarrow> error + ETS" where
  "ty eta0 = init (Callable ty_func) (Some ''ty'') eta0 ''rad''"

definition tz :: "pynum option \<Rightarrow> error + ETS" where
  "tz eta0 = init (Callable tz_func) (Some ''tz'') eta0 ''rad''"

text \<open>\<^verbatim>\<open>_CONST\<close>: the constructor applied to an array alone.\<close>

definition ETS_CONST :: "ndarray \<Rightarrow> error + ETS" where
  "ETS_CONST M = init (Ndarray M) None None ''rad''"

subsection \<open>Properties of a sequence\<close>

text \<open>\<^verbatim>\<open>self.data[0]\<close>: IndexError on the empty sequence.\<close>

definition data0 :: "ETS \<Rightarrow> error + ETS3" where
  "data0 self = (case self of [] \<Rightarrow> Inl IndexError | e # _ \<Rightarrow> Inr e)"

definition eta :: "ETS \<Rightarrow> error + pynum option" where
  "eta self = bind (data0 self) (\<lambda>e. Inr (et_eta e))"

definition axis_func :: "ETS \<Rightarrow> error + (pynum \<Rightarrow> ndarray) option" where
  "axis_func self = bind (data0 self) (\<lambda>e. Inr (et_axis_func e))"

definition axis :: "ETS \<Rightarrow> error + string option" where
  "axis self = bind (data0 self) (\<lambda>e. Inr (et_axis e))"

definition isjoint :: "ETS \<Rightarrow> error + bool" where
  "isjoint self = bind (data0 self) (\<lambda>e. Inr (et_joint e))"

text \<open>
  \<^verbatim>\<open>self.axis[0] == c\<close>: subscripting \<^verbatim>\<open>None\<close> raises TypeError, subscripting the
  empty string raises IndexError.
\<close>

definition axis0_is :: "ETS \<Rightarrow> char \<Rightarrow> error + bool" where
  "axis0_is self c =
     bind (axis self) (\<lambda>a. case a of
        None \<Rightarrow> Inl TypeError
      | Some [] \<Rightarrow> Inl IndexError
      | Some (x # _) \<Rightarrow> Inr (x = c))"

definition isrevolute :: "ETS \<Rightarrow> error + bool" where
  "isrevolute self = axis0_is self CHR ''R''"

definition isprismatic :: "ETS \<Rightarrow> error + bool" where
  "isprismatic self = axis0_is self CHR ''t''"

definition isconstant :: "ETS \<Rightarrow> error + bool" where
  "isconstant self = axis0_is self CHR ''C''"

text \<open>
  The property \<^verbatim>\<open>n\<close>. Iterating a sequence yields the length-one sequences
  \<^verbatim>\<open>self[0], self[1], ...\<close>. The loop body is \<^verbatim>\<open>if et.isjoint: et += 1\<close>: the
  in-place addition is \<^verbatim>\<open>UserList.__iadd__\<close> with the integer 1 on the right, which
  evaluates \<^verbatim>\<open>list(1)\<close> and raises TypeError. The counter \<^verbatim>\<open>n\<close> is never changed.
\<close>

definition iadd_int :: "ETS \<Rightarrow> int \<Rightarrow> error + ETS" where
  "iadd_int et k = Inl TypeError"

fun n_loop :: "ETS \<Rightarrow> nat \<Rightarrow> error + nat" where
  "n_loop [] n = Inr n"
| "n_loop (e # es) n =
     bind (isjoint [e]) (\<lambda>j.
       if j then bind (iadd_int [e] 1) (\<lambda>et'. n_loop es n)
       else n_loop es n)"

definition ETS_n :: "ETS \<Rightarrow> error + nat" where
  "ETS_n self = n_loop self 0"

text \<open>\<^verbatim>\<open>joints()\<close>: the positions of the joint elements, ascending.\<close>

definition joints :: "ETS \<Rightarrow> nat list" where
  "joints self = [i \<leftarrow> [0..<length self]. et_joint (self ! i)]"

text \<open>
  \<^verbatim>\<open>config\<close>: one character per entry of \<^verbatim>\<open>self.joints()\<close>; the test in the
  comprehension is \<^verbatim>\<open>self.isrevolute\<close>, a property of the whole sequence, evaluated
  once for every entry.
\<close>

fun config_loop :: "ETS \<Rightarrow> nat list \<Rightarrow> error + string" where
  "config_loop self [] = Inr []"
| "config_loop self (i # is) =
     bind (isrevolute self) (\<lambda>r.
       bind (config_loop self is) (\<lambda>cs.
         Inr ((if r then CHR ''R'' else CHR ''P'') # cs)))"

definition config :: "ETS \<Rightarrow> error + string" where
  "config self = config_loop self (joints self)"

text \<open>
  The method \<^verbatim>\<open>T(q)\<close> of a sequence. Calling \<^verbatim>\<open>None\<close> as a function raises
  TypeError. What a transform function does when it is handed \<^verbatim>\<open>None\<close> instead of a
  number depends on the function (the rotations raise TypeError, the translations
  return an array of Python objects, for which this model has no term), so the result
  of \<^verbatim>\<open>T()\<close> on a joint is left unspecified; the methods below call \<^verbatim>\<open>T()\<close> on
  non-joint elements only.
\<close>

definition ETS_T :: "ETS \<Rightarrow> pynum option \<Rightarrow> error + ndarray option" where
  "ETS_T self q =
     bind (isjoint self) (\<lambda>j.
       if j then
         bind (axis_func self) (\<lambda>f. case f of
            None \<Rightarrow> Inl TypeError
          | Some f' \<Rightarrow> (case q of None \<Rightarrow> undefined | Some v \<Rightarrow> Inr (Some (f' v))))
       else bind (data0 self) (\<lambda>e. Inr (et_T e)))"

subsection \<open>Forward kinematics\<close>

text \<open>
  \<^verbatim>\<open>getvector\<close> of \<^verbatim>\<open>spatialmath.base\<close> on a list: the list itself; when a
  dimension is given, a non-empty list of another length is rejected with ValueError.
\<close>

definition getvector :: "real list \<Rightarrow> nat option \<Rightarrow> error + real list" where
  "getvector v dm =
     (case dm of
        None \<Rightarrow> Inr v
      | Some d \<Rightarrow> if v \<noteq> [] \<and> length v \<noteq> d then Inl ValueError else Inr v)"

text \<open>
  The loop of \<^verbatim>\<open>eval\<close>. \<^verbatim>\<open>q.pop(0)\<close> raises AttributeError when \<^verbatim>\<open>q\<close> is
  \<^verbatim>\<open>None\<close> and IndexError when the list is exhausted; whatever is left of \<^verbatim>\<open>q\<close>
  when the loop ends is not looked at. The coordinates are reals: the array a joint
  makes of its coordinate is used at once in a product with the running transform,
  which is a float array from \<^verbatim>\<open>np.eye(4)\<close> on.
\<close>

fun eval_loop :: "ETS \<Rightarrow> real list option \<Rightarrow> string \<Rightarrow> ndarray \<Rightarrow> error + ndarray" where
  "eval_loop [] q unit T = Inr T"
| "eval_loop (e # es) q unit T =
     bind (isjoint [e]) (\<lambda>j.
       if j then
         (case q of
            None \<Rightarrow> Inl AttributeError
          | Some [] \<Rightarrow> Inl IndexError
          | Some (qj # qs) \<Rightarrow>
              bind (isrevolute [e]) (\<lambda>r.
                let qj' = (if r \<and> unit = ''deg'' then qj * (pi / 180) else qj) in
                bind (ETS_T [e] (Some (PyFloat qj'))) (\<lambda>M.
                  bind (matmul_opt T M) (\<lambda>T'. eval_loop es (Some qs) unit T'))))
       else
         bind (ETS_T [e] None) (\<lambda>M.
           bind (matmul_opt T M) (\<lambda>T'. eval_loop es q unit T')))"

text \<open>\<^verbatim>\<open>eval(q, unit)\<close>: the loop from the identity, then \<^verbatim>\<open>SE3(T)\<close>.\<close>

definition eval :: "ETS \<Rightarrow> real list option \<Rightarrow> string \<Rightarrow> error + mat4" where
  "eval self q unit =
     bind (case q of None \<Rightarrow> Inr None
           | Some v \<Rightarrow> bind (getvector v None) (\<lambda>v'. Inr (Some v'))) (\<lambda>q'.
       bind (eval_loop self q' unit (FloatArr eye4)) SE3)"

subsection \<open>Constant folding\<close>

text \<open>
  The loop of \<^verbatim>\<open>compile\<close>, with the pending constant \<^verbatim>\<open>const\<close> and the output
  sequence \<^verbatim>\<open>ets\<close> as accumulators; the last equation is the flush after the loop.
  The product \<^verbatim>\<open>const @ et.T()\<close> is taken in the dtype of the two cached arrays, so
  in int64 when both are int64 arrays.
\<close>

fun compile_loop :: "ETS \<Rightarrow> ndarray option \<Rightarrow> ETS \<Rightarrow> error + ETS" where
  "compile_loop [] const ets =
     (case const of
        None \<Rightarrow> Inr ets
      | Some c \<Rightarrow> bind (ETS_CONST c) (\<lambda>k. Inr (imul ets k)))"
| "compile_loop (e # es) const ets =
     bind (isjoint [e]) (\<lambda>j.
       if j then
         bind (case const of
                 None \<Rightarrow> Inr ets
               | Some c \<Rightarrow> bind (ETS_CONST c) (\<lambda>k. Inr (imul ets k))) (\<lambda>ets'.
           compile_loop es None (imul ets' [e]))
       else
         bind (ETS_T [e] None) (\<lambda>M.
           case const of
             None \<Rightarrow> compile_loop es M ets
           | Some c \<Rightarrow> bind (matmul_opt c M) (\<lambda>c'. compile_loop es (Some c') ets)))"

definition compile :: "ETS \<Rightarrow> error + ETS" where
  "compile self = compile_loop self None []"

subsection \<open>Jacobian and Hessian\<close>

type_synonym vec3 = "real \<times> real \<times> real"

definition zero3 :: vec3 where
  "zero3 = (0, 0, 0)"

fun scale3 :: "vec3 \<Rightarrow> real \<Rightarrow> vec3" where
  "scale3 (a, b, c) k = (a * k, b * k, c * k)"

fun sub3 :: "vec3 \<Rightarrow> vec3 \<Rightarrow> vec3" where
  "sub3 (a, b, c) (d, e, f) = (a - d, b - e, c - f)"

text \<open>\<^verbatim>\<open>np.cross\<close> on two 3-vectors.\<close>

fun cross3 :: "vec3 \<Rightarrow> vec3 \<Rightarrow> vec3" where
  "cross3 (a, b, c) (d, e, f) = (b * f - c * e, c * d - a * f, a * e - b * d)"

text \<open>
  A 6 x n array is the list of its n columns, each column the pair of its upper block
  \<^verbatim>\<open>[:3, j]\<close> and its lower block \<^verbatim>\<open>[3:, j]\<close>.
\<close>

type_synonym jacobian = "(vec3 \<times> vec3) list"

text \<open>
  The column written for a joint of the given axis, from \<^verbatim>\<open>U\<close> and
  \<^verbatim>\<open>Tu = inv(U) @ T\<close>; \<open>None\<close> when no branch of the \<^verbatim>\<open>if\<close>/\<^verbatim>\<open>elif\<close> chain
  matches and the column is left as it is. \<open>nh\<close>, \<open>oh\<close>, \<open>ah\<close> are the source's
  \<^verbatim>\<open>n\<close>, \<^verbatim>\<open>o\<close>, \<^verbatim>\<open>a\<close>.
\<close>

definition jacob0_column :: "string option \<Rightarrow> mat4 \<Rightarrow> mat4 \<Rightarrow> (vec3 \<times> vec3) option" where
  "jacob0_column ax U Tu =
     (let nh = (m00 U, m10 U, m20 U);
          oh = (m01 U, m11 U, m21 U);
          ah = (m02 U, m12 U, m22 U);
          x = m03 Tu; y = m13 Tu; z = m23 Tu
      in if ax = Some ''Rz'' then Some (sub3 (scale3 oh x) (scale3 nh y), ah)
         else if ax = Some ''Ry'' then Some (sub3 (scale3 nh z) (scale3 ah x), oh)
         else if ax = Some ''Rx'' then Some (sub3 (scale3 ah y) (scale3 oh z), nh)
         else if ax = Some ''tx'' then Some (nh, (0, 0, 0))
         else if ax = Some ''ty'' then Some (oh, (0, 0, 0))
         else if ax = Some ''tz'' then Some (ah, (0, 0, 0))
         else None)"

text \<open>
  The loop of \<^verbatim>\<open>jacob0\<close>. \<open>linv\<close> stands for \<^verbatim>\<open>np.linalg.inv\<close>, \<open>None\<close> where it
  raises LinAlgError. Reading \<^verbatim>\<open>q[j]\<close> or writing column \<^verbatim>\<open>j\<close> out of range raises
  IndexError; the argument \<^verbatim>\<open>q[j]\<close> is evaluated before the function is called. \<open>q\<close>
  is the float array that \<^verbatim>\<open>getvector(q, n)\<close> returns.
\<close>

fun jacob0_loop ::
  "(mat4 \<Rightarrow> mat4 option) \<Rightarrow> mat4 \<Rightarrow> real list \<Rightarrow> ETS \<Rightarrow> ndarray \<Rightarrow> nat \<Rightarrow> jacobian
     \<Rightarrow> error + jacobian" where
  "jacob0_loop linv T q [] U j J = Inr J"
| "jacob0_loop linv T q (e # es) U j J =
     bind (isjoint [e]) (\<lambda>jt.
       if jt then
         bind (axis_func [e]) (\<lambda>f.
           if length q \<le> j then Inl IndexError
           else case f of
              None \<Rightarrow> Inl TypeError
            | Some f' \<Rightarrow>
                let U' = array_matmul U (f' (PyFloat (q ! j))) in
                (case linv (as_float U') of
                   None \<Rightarrow> Inl LinAlgError
                 | Some Ui \<Rightarrow>
                     bind (axis [e]) (\<lambda>ax.
                       case jacob0_column ax (as_float U') (matmul Ui T) of
                         None \<Rightarrow> jacob0_loop linv T q es U' (j + 1) J
                       | Some c \<Rightarrow>
                           if length J \<le> j then Inl IndexError
                           else jacob0_loop linv T q es U' (j + 1) (J[j := c]))))
       else
         bind (ETS_T [e] None) (\<lambda>M.
           bind (matmul_opt U M) (\<lambda>U'. jacob0_loop linv T q es U' j J)))"

text \<open>
  \<^verbatim>\<open>jacob0(q, T)\<close>. The name \<^verbatim>\<open>offset\<close> is assigned in the body, so it is a local
  variable, and the first statement reads it before any assignment: Python raises
  UnboundLocalError there. \<open>jacob0_rest\<close> is the body from \<^verbatim>\<open>n = self.n\<close> on, as
  written.
\<close>

definition unbound_local :: "error + 'a" where
  "unbound_local = Inl UnboundLocalError"

definition jacob0_rest ::
  "(mat4 \<Rightarrow> mat4 option) \<Rightarrow> ETS \<Rightarrow> real list option \<Rightarrow> mat4 option \<Rightarrow> mat4
     \<Rightarrow> error + jacobian" where
  "jacob0_rest linv self q T offset =
     bind (ETS_n self) (\<lambda>n.
       bind (case q of None \<Rightarrow> Inl TypeError | Some v \<Rightarrow> getvector v (Some n)) (\<lambda>q'.
         bind (case T of None \<Rightarrow> eval self (Some q') ''rad'' | Some T' \<Rightarrow> Inr T') (\<lambda>T'.
           jacob0_loop linv T' q' self (FloatArr eye4) 0 (replicate n (zero3, zero3)))))"

definition jacob0 ::
  "(mat4 \<Rightarrow> mat4 option) \<Rightarrow> ETS \<Rightarrow> real list option \<Rightarrow> mat4 option \<Rightarrow> error + jacobian" where
  "jacob0 linv self q T =
     bind (unbound_local :: error + mat4 option) (\<lambda>offset0.
       let offset = (case offset0 of None \<Rightarrow> eye4 | Some M \<Rightarrow> M) in
       jacob0_rest linv self q T offset)"

text \<open>
  A 6 x n x n array \<^verbatim>\<open>H\<close> is a list of rows of pairs: \<open>H ! i ! j\<close> is the pair of
  \<^verbatim>\<open>H[:3, i, j]\<close> and \<^verbatim>\<open>H[3:, i, j]\<close>.
\<close>

type_synonym hessian = "(vec3 \<times> vec3) list list"

definition set_upper :: "hessian \<Rightarrow> nat \<Rightarrow> nat \<Rightarrow> vec3 \<Rightarrow> hessian" where
  "set_upper H i j v = H[i := (H ! i)[j := (v, snd (H ! i ! j))]]"

definition set_lower :: "hessian \<Rightarrow> nat \<Rightarrow> nat \<Rightarrow> vec3 \<Rightarrow> hessian" where
  "set_lower H i j v = H[i := (H ! i)[j := (fst (H ! i ! j), v)]]"

text \<open>The body of the inner loop of \<^verbatim>\<open>hessian0\<close>, three assignments in order.\<close>

definition hessian0_body :: "jacobian \<Rightarrow> nat \<Rightarrow> nat \<Rightarrow> hessian \<Rightarrow> hessian" where
  "hessian0_body J0 j i H =
     (let H1 = set_upper H i j (cross3 (snd (J0 ! j)) (fst (J0 ! i)));
          H2 = set_lower H1 i j (cross3 (snd (J0 ! j)) (snd (J0 ! i)))
      in if i \<noteq> j then set_upper H2 j i (fst (H2 ! i ! j)) else H2)"

text \<open>
  The two nested loops over \<^verbatim>\<open>range(n)\<close> and \<^verbatim>\<open>range(j, n)\<close>, from
  \<^verbatim>\<open>np.zeros((6, n, n))\<close>. \<open>J0\<close> has \<open>n\<close> columns when the loops are reached.
\<close>

definition hessian0_loops :: "nat \<Rightarrow> jacobian \<Rightarrow> hessian" where
  "hessian0_loops n J0 =
     fold (\<lambda>j H. fold (hessian0_body J0 j) [j..<n] H) [0..<n]
       (replicate n (replicate n (zero3, zero3)))"

text \<open>
  \<^verbatim>\<open>hessian0(q, J0)\<close>. The module calls \<^verbatim>\<open>verifymatrix\<close> without importing or
  defining it, so that call raises NameError; \<^verbatim>\<open>self.q\<close> is not an attribute of the
  class.
\<close>

definition verifymatrix :: "jacobian \<Rightarrow> nat \<times> nat \<Rightarrow> error + unit" where
  "verifymatrix J shape = Inl NameError"

definition hessian0 ::
  "(mat4 \<Rightarrow> mat4 option) \<Rightarrow> ETS \<Rightarrow> real list option \<Rightarrow> jacobian option \<Rightarrow> error + hessian" where
  "hessian0 linv self q J0 =
     bind (ETS_n self) (\<lambda>n.
       bind (case J0 of
               None \<Rightarrow>
                 bind (case q of None \<Rightarrow> Inl AttributeError
                       | Some v \<Rightarrow> getvector v (Some n)) (\<lambda>q'.
                   jacob0 linv self (Some q') None)
             | Some J \<Rightarrow> bind (verifymatrix J (6, n)) (\<lambda>u. Inr J)) (\<lambda>J.
         Inr (hessian0_loops n J)))"

subsection \<open>Sequences used in the source's docstrings\<close>

text \<open>\<^verbatim>\<open>ETS.rz() * ETS.tx(1) * ETS.rz() * ETS.tx(1)\<close> (docstring of \<^verbatim>\<open>eval\<close>).\<close>

definition ets_rz_tx_rz_tx :: "error + ETS" where
  "ets_rz_tx_rz_tx =
     bind (rz None ''rad'') (\<lambda>a. bind (tx (Some (PyInt 1))) (\<lambda>b.
       bind (rz None ''rad'') (\<lambda>c. bind (tx (Some (PyInt 1))) (\<lambda>d.
         Inr (mul (mul (mul a b) c) d)))))"

text \<open>\<^verbatim>\<open>ETS.tz() * ETS.tx(1) * ETS.rz() * ETS.tx(1)\<close> (docstring of \<^verbatim>\<open>config\<close>).\<close>

definition ets_tz_tx_rz_tx :: "error + ETS" where
  "ets_tz_tx_rz_tx =
     bind (tz None) (\<lambda>a. bind (tx (Some (PyInt 1))) (\<lambda>b.
       bind (rz None ''rad'') (\<lambda>c. bind (tx (Some (PyInt 1))) (\<lambda>d.
         Inr (mul (mul (mul a b) c) d)))))"

text \<open>\<^verbatim>\<open>ETS.rx() * ETS.tx(1) * ETS.tz()\<close> (docstring of \<^verbatim>\<open>n\<close>).\<close>

definition ets_rx_tx_tz :: "error + ETS" where
  "ets_rx_tx_tz =
     bind (rx None ''rad'') (\<lambda>a. bind (tx (Some (PyInt 1))) (\<lambda>b. bind (tz None) (\<lambda>c.
       Inr (mul (mul a b) c))))"

text \<open>
  \<^verbatim>\<open>ETS.tx(2**62) * ETS.tx(2**62)\<close>: two constant translations given as Python ints.
\<close>

definition ets_tx_tx_big :: "error + ETS" where
  "ets_tx_tx_big =
     bind (tx (Some (PyInt 4611686018427387904))) (\<lambda>a.
       bind (tx (Some (PyInt 4611686018427387904))) (\<lambda>b. Inr (mul a b)))"

text \<open>\<^verbatim>\<open>ETS.rz() * ETS.rx()\<close>: two revolute joints about different axes.\<close>

definition ets_rz_rx :: "error + ETS" where
  "ets_rz_rx =
     bind (rz None ''rad'') (\<lambda>a. bind (rx None ''rad'') (\<lambda>b. Inr (mul a b)))"

subsection \<open>Notions used to state the properties\<close>

text \<open>The three shapes of element that the constructor produces.\<close>

abbreviation joint_elem :: "(pynum \<Rightarrow> ndarray) \<Rightarrow> string \<Rightarrow> ETS3" where
  "joint_elem f a \<equiv>
     \<lparr>et_eta = None, et_axis_func = Some f, et_axis = Some a, et_joint = True, et_T = None\<rparr>"

abbreviation fixed_elem :: "(pynum \<Rightarrow> ndarray) \<Rightarrow> string \<Rightarrow> pynum \<Rightarrow> ETS3" where
  "fixed_elem f a v \<equiv>
     \<lparr>et_eta = Some v, et_axis_func = Some f, et_axis = Some a, et_joint = False,
      et_T = Some (f v)\<rparr>"

abbreviation const_elem :: "ndarray \<Rightarrow> ETS3" where
  "const_elem M \<equiv>
     \<lparr>et_eta = None, et_axis_func = None, et_axis = Some ''C'', et_joint = False,
      et_T = Some M\<rparr>"

text \<open>
  What \<^verbatim>\<open>__init__\<close> establishes for every element it builds: a joint has its
  transform function, any other element has its matrix.
\<close>

definition built :: "ETS3 \<Rightarrow> bool" where
  "built e = (if et_joint e then et_axis_func e \<noteq> None else et_T e \<noteq> None)"

text \<open>
  A built element whose axis name, if it is a joint, is a non-empty string, so that
  \<^verbatim>\<open>isrevolute\<close> does not raise on it. Every element built by a factory or by
  \<^verbatim>\<open>_CONST\<close> is of this kind.
\<close>

definition well_formed :: "ETS3 \<Rightarrow> bool" where
  "well_formed e =
     (if et_joint e
      then et_axis_func e \<noteq> None \<and> et_axis e \<noteq> None \<and> et_axis e \<noteq> Some []
      else et_T e \<noteq> None)"

text \<open>
  An element whose transform is a rigid motion for every coordinate, so that \<^verbatim>\<open>SE3\<close>
  accepts what the sequence composes. The factories build such elements.
\<close>

definition rigid :: "ETS3 \<Rightarrow> bool" where
  "rigid e =
     (if et_joint e
      then (case et_axis_func e of None \<Rightarrow> False | Some f \<Rightarrow> \<forall>v. ishom (as_float (f v)))
      else (case et_T e of None \<Rightarrow> False | Some M \<Rightarrow> ishom (as_float M)))"

text \<open>Two non-joint elements next to each other somewhere in the sequence.\<close>

fun consecutive_constants :: "ETS \<Rightarrow> bool" where
  "consecutive_constants (a # b # es) =
     ((\<not> et_joint a \<and> \<not> et_joint b) \<or> consecutive_constants (b # es))"
| "consecutive_constants es = False"

text \<open>
  The joint configuration string as the specification words it: one character per joint
  element, in order, \<open>R\<close> when that element's axis is a rotation and \<open>P\<close> otherwise.
\<close>

definition config_spec :: "ETS \<Rightarrow> string" where
  "config_spec self =
     map (\<lambda>e. if (case et_axis e of Some (x # _) \<Rightarrow> x = CHR ''R'' | _ \<Rightarrow> False)
              then CHR ''R'' else CHR ''P'')
       (filter et_joint self)"

text \<open>
  For the proofs about \<open>compile\<close>: the output of the loop as a function of the
  remaining input and the pending constant.
\<close>

definition flush :: "ndarray option \<Rightarrow> ETS" where
  "flush c = (case c of None \<Rightarrow> [] | Some M \<Rightarrow> [const_elem M])"

fun fold_consts :: "ETS \<Rightarrow> ndarray option \<Rightarrow> ETS" where
  "fold_consts [] c = flush c"
| "fold_consts (e # es) c =
     (if et_joint e then flush c @ e # fold_consts es None
      else fold_consts es
             (case c of None \<Rightarrow> et_T e
              | Some M \<Rightarrow> Some (array_matmul M (the (et_T e)))))"

text \<open>
  No product that the folding forms wraps around: each folded array, read as reals, is
  the exact product of its two factors. This is so for every product with a float
  operand.
\<close>

fun no_wrap :: "ETS \<Rightarrow> ndarray option \<Rightarrow> bool" where
  "no_wrap [] c = True"
| "no_wrap (e # es) c =
     (if et_joint e then no_wrap es None
      else case c of
        None \<Rightarrow> no_wrap es (et_T e)
      | Some A \<Rightarrow>
          (case et_T e of
             None \<Rightarrow> True
           | Some B \<Rightarrow>
               as_float (array_matmul A B) = matmul (as_float A) (as_float B)
               \<and> no_wrap es (Some (array_matmul A B))))"

text \<open>
  For the proofs about the loops of \<^verbatim>\<open>hessian0\<close>: the shape of an n x n array, the
  two cross products of an iteration, and the state after the first \<open>k\<close> rounds of the
  outer loop.
\<close>

definition dims :: "nat \<Rightarrow> hessian \<Rightarrow> bool" where
  "dims n H = (length H = n \<and> (\<forall>i<n. length (H ! i) = n))"

definition upper_entry :: "jacobian \<Rightarrow> nat \<Rightarrow> nat \<Rightarrow> vec3" where
  "upper_entry J0 j i = cross3 (snd (J0 ! j)) (fst (J0 ! i))"

definition lower_entry :: "jacobian \<Rightarrow> nat \<Rightarrow> nat \<Rightarrow> vec3" where
  "lower_entry J0 j i = cross3 (snd (J0 ! j)) (snd (J0 ! i))"

definition outer :: "nat \<Rightarrow> jacobian \<Rightarrow> nat \<Rightarrow> hessian" where
  "outer n J0 k =
     fold (\<lambda>j H. fold (hessian0_body J0 j) [j..<n] H) [0..<k]
       (replicate n (replicate n (zero3, zero3)))"

section \<open>Basic facts\<close>

lemmas factory_defs =
  rx_def ry_def rz_def tx_def ty_def tz_def ETS_CONST_def init_def getunit_def

lemmas property_defs =
  eta_def axis_def axis_func_def isjoint_def isrevolute_def isprismatic_def
  isconstant_def axis0_is_def data0_def

lemma bind_Inr [simp]: "bind (Inr x) f = f x"
  by (simp add: bind_def)

lemma bind_Inl [simp]: "bind (Inl e) f = Inl e"
  by (simp add: bind_def)

lemma matmul_assoc: "matmul (matmul A B) C = matmul A (matmul B C)"
  by (cases A; cases B; cases C) (simp add: algebra_simps)

lemma array_matmul_float [simp]:
  "array_matmul (FloatArr M) B = FloatArr (matmul M (as_float B))"
  by (cases B) simp_all

lemma as_float_array_matmul_float [simp]:
  "as_float (array_matmul A (FloatArr M)) = matmul (as_float A) M"
  by (cases A) simp_all

lemma matmul_eye_left: "matmul eye4 A = A"
  by (cases A) (simp add: eye4_def)

lemma matmul_eye_right: "matmul A eye4 = A"
  by (cases A) (simp add: eye4_def)

text \<open>Rigid transforms are closed under the product.\<close>

lemma ishom_eye4: "ishom eye4"
  by (simp add: ishom_def eye4_def)

lemma ishom_matmul:
  assumes "ishom A" "ishom B"
  shows "ishom (matmul A B)"
proof -
  obtain a00 a01 a02 a03 a10 a11 a12 a13 a20 a21 a22 a23 a30 a31 a32 a33
    where A: "A = Mat4 a00 a01 a02 a03 a10 a11 a12 a13 a20 a21 a22 a23 a30 a31 a32 a33"
    by (cases A)
  obtain b00 b01 b02 b03 b10 b11 b12 b13 b20 b21 b22 b23 b30 b31 b32 b33
    where B: "B = Mat4 b00 b01 b02 b03 b10 b11 b12 b13 b20 b21 b22 b23 b30 b31 b32 b33"
    by (cases B)
  from assms(1) A have Alast: "a30 = 0" "a31 = 0" "a32 = 0" "a33 = 1"
    and Arows: "a00 * a00 + a01 * a01 + a02 * a02 = 1"
      "a10 * a10 + a11 * a11 + a12 * a12 = 1"
      "a20 * a20 + a21 * a21 + a22 * a22 = 1"
      "a00 * a10 + a01 * a11 + a02 * a12 = 0"
      "a00 * a20 + a01 * a21 + a02 * a22 = 0"
      "a10 * a20 + a11 * a21 + a12 * a22 = 0"
    by (simp_all add: ishom_def)
  from assms(2) B have Blast: "b30 = 0" "b31 = 0" "b32 = 0" "b33 = 1"
    and Brows: "b00 * b00 + b01 * b01 + b02 * b02 = 1"
      "b10 * b10 + b11 * b11 + b12 * b12 = 1"
      "b20 * b20 + b21 * b21 + b22 * b22 = 1"
      "b00 * b10 + b01 * b11 + b02 * b12 = 0"
      "b00 * b20 + b01 * b21 + b02 * b22 = 0"
      "b10 * b20 + b11 * b21 + b12 * b22 = 0"
    by (simp_all add: ishom_def)
  have prod: "(x0*b00 + x1*b10 + x2*b20) * (y0*b00 + y1*b10 + y2*b20)
       + (x0*b01 + x1*b11 + x2*b21) * (y0*b01 + y1*b11 + y2*b21)
       + (x0*b02 + x1*b12 + x2*b22) * (y0*b02 + y1*b12 + y2*b22)
       = x0 * y0 + x1 * y1 + x2 * y2" for x0 x1 x2 y0 y1 y2 :: real
    using Brows by algebra
  show ?thesis
    unfolding A B
    by (simp add: ishom_def Alast Blast prod Arows)
qed

lemma sin_cos_sq: "sin t * sin t + cos t * cos t = (1 :: real)"
  using sin_cos_squared_add [of t] by (simp add: power2_eq_square)

lemma ishom_rotations:
  "ishom (as_float (trotx v))" "ishom (as_float (troty v))" "ishom (as_float (trotz v))"
  by (simp_all add: ishom_def trotx_def troty_def trotz_def sin_cos_sq)

lemma ishom_translations:
  "ishom (as_float (tx_func v))" "ishom (as_float (ty_func v))" "ishom (as_float (tz_func v))"
  by (cases v; simp add: ishom_def to_float_def)+

lemmas ishom_funcs = ishom_rotations ishom_translations


lemma SE3_ishom [simp]: "ishom M \<Longrightarrow> SE3 (FloatArr M) = Inr M"
  by (simp add: SE3_def)

text \<open>What the factories build.\<close>

lemma joint_factories:
  "rx None ''rad'' = Inr [joint_elem trotx ''Rx'']"
  "ry None ''rad'' = Inr [joint_elem troty ''Ry'']"
  "rz None ''rad'' = Inr [joint_elem trotz ''Rz'']"
  "tx None = Inr [joint_elem tx_func ''tx'']"
  "ty None = Inr [joint_elem ty_func ''ty'']"
  "tz None = Inr [joint_elem tz_func ''tz'']"
  by (simp_all add: factory_defs)

lemma fixed_factories:
  "rx (Some v) ''rad'' = Inr [fixed_elem trotx ''Rx'' v]"
  "ry (Some v) ''rad'' = Inr [fixed_elem troty ''Ry'' v]"
  "rz (Some v) ''rad'' = Inr [fixed_elem trotz ''Rz'' v]"
  "tx (Some v) = Inr [fixed_elem tx_func ''tx'' v]"
  "ty (Some v) = Inr [fixed_elem ty_func ''ty'' v]"
  "tz (Some v) = Inr [fixed_elem tz_func ''tz'' v]"
  by (simp_all add: factory_defs)

lemma ETS_CONST_eq [simp]: "ETS_CONST M = Inr [const_elem M]"
  by (simp add: ETS_CONST_def init_def)

lemma well_formed_elems [simp]:
  "a \<noteq> [] \<Longrightarrow> well_formed (joint_elem f a)"
  "well_formed (fixed_elem f a v)"
  "well_formed (const_elem M)"
  by (simp_all add: well_formed_def)

lemma built_elems [simp]:
  "built (joint_elem f a)"
  "built (fixed_elem f a v)"
  "built (const_elem M)"
  by (simp_all add: built_def)

lemma well_formed_built: "well_formed e \<Longrightarrow> built e"
  by (simp add: well_formed_def built_def split: if_splits)

lemma init_built: "init af ax eta0 unit = Inr S \<Longrightarrow> list_all built S"
  by (auto simp: init_def getunit_def built_def bind_def
      split: axis_func_arg.splits option.splits if_splits)

lemma rigid_elems [simp]:
  "(\<And>v. ishom (as_float (f v))) \<Longrightarrow> rigid (joint_elem f a)"
  "ishom (as_float (f v)) \<Longrightarrow> rigid (fixed_elem f a v)"
  "ishom (as_float M) \<Longrightarrow> rigid (const_elem M)"
  by (simp_all add: rigid_def)

lemma init_well_formed:
  "init af (Some a) eta0 unit = Inr S \<Longrightarrow> a \<noteq> [] \<Longrightarrow> list_all well_formed S"
  by (auto simp: init_def getunit_def well_formed_def bind_def
      split: axis_func_arg.splits option.splits if_splits)

lemma ETS_CONST_well_formed: "ETS_CONST M = Inr S \<Longrightarrow> list_all well_formed S"
  by (auto simp: well_formed_def)

lemma ets_rz_tx_rz_tx_eq:
  "ets_rz_tx_rz_tx = Inr
     [joint_elem trotz ''Rz'', fixed_elem tx_func ''tx'' (PyInt 1),
      joint_elem trotz ''Rz'', fixed_elem tx_func ''tx'' (PyInt 1)]"
  by (simp add: ets_rz_tx_rz_tx_def joint_factories fixed_factories mul_def)

lemma ets_tz_tx_rz_tx_eq:
  "ets_tz_tx_rz_tx = Inr
     [joint_elem tz_func ''tz'', fixed_elem tx_func ''tx'' (PyInt 1),
      joint_elem trotz ''Rz'', fixed_elem tx_func ''tx'' (PyInt 1)]"
  by (simp add: ets_tz_tx_rz_tx_def joint_factories fixed_factories mul_def)

lemma ets_rx_tx_tz_eq:
  "ets_rx_tx_tz = Inr
     [joint_elem trotx ''Rx'', fixed_elem tx_func ''tx'' (PyInt 1), joint_elem tz_func ''tz'']"
  by (simp add: ets_rx_tx_tz_def joint_factories fixed_factories mul_def)

lemma ets_tx_tx_big_eq:
  "ets_tx_tx_big = Inr
     [fixed_elem tx_func ''tx'' (PyInt 4611686018427387904),
      fixed_elem tx_func ''tx'' (PyInt 4611686018427387904)]"
  by (simp add: ets_tx_tx_big_def fixed_factories mul_def)

lemma ets_rz_rx_eq:
  "ets_rz_rx = Inr [joint_elem trotz ''Rz'', joint_elem trotx ''Rx'']"
  by (simp add: ets_rz_rx_def joint_factories mul_def)

text \<open>The properties of a length-one sequence, as the loops use them.\<close>

lemma isjoint_single [simp]: "isjoint [e] = Inr (et_joint e)"
  by (simp add: property_defs)

lemma ETS_T_const [simp]: "\<not> et_joint e \<Longrightarrow> ETS_T [e] q = Inr (et_T e)"
  by (simp add: ETS_T_def property_defs)

lemma matmul_opt_Some [simp]: "matmul_opt A (Some B) = Inr (array_matmul A B)"
  by (simp add: matmul_opt_def)

lemma isrevolute_wf:
  "well_formed e \<Longrightarrow> et_joint e \<Longrightarrow> \<exists>r. isrevolute [e] = Inr r"
  by (cases "et_axis e"; cases "the (et_axis e)")
     (simp_all add: well_formed_def property_defs)

lemma ETS_T_joint_wf:
  "well_formed e \<Longrightarrow> et_joint e \<Longrightarrow> \<exists>M. ETS_T [e] (Some v) = Inr (Some M)"
  by (cases "et_axis_func e") (simp_all add: well_formed_def ETS_T_def property_defs)

text \<open>\<^verbatim>\<open>joints()\<close> lists the positions of exactly the joint elements, in order.\<close>

lemma joints_filter: "map (nth S) (joints S) = filter et_joint S"
proof -
  have "filter et_joint (map (nth S) [0..<length S]) = filter et_joint S"
    by (simp add: map_nth)
  then show ?thesis
    by (simp add: joints_def filter_map comp_def)
qed

lemma length_joints: "length (joints S) = length (filter et_joint S)"
  using joints_filter [of S] by (metis length_map)

section \<open>The joint count\<close>

text \<open>
  C4. The claim: the property \<^verbatim>\<open>n\<close> returns the number of joint elements and does not
  raise. On the docstring's own sequence \<^verbatim>\<open>rx() * tx(1) * tz()\<close>, which has two
  joints, the property raises TypeError at the first joint instead of returning 2.
\<close>

theorem n_raises_on_docstring_example:
  "bind ets_rx_tx_tz ETS_n = Inl TypeError
   \<and> bind ets_rx_tx_tz (\<lambda>S. Inr (length (joints S))) = Inr 2"
  by (simp add: ets_rx_tx_tz_eq ETS_n_def iadd_int_def joints_def)

text \<open>The property returns only on sequences without joints, and then returns 0.\<close>

lemma n_loop_eq:
  "n_loop S k = (if list_ex et_joint S then Inl TypeError else Inr k)"
  by (induction S) (simp_all add: iadd_int_def)

lemma ETS_n_eq:
  "ETS_n S = (if list_ex et_joint S then Inl TypeError else Inr 0)"
  by (simp add: ETS_n_def n_loop_eq)

section \<open>The configuration string\<close>

text \<open>
  C5. The claim: the configuration string has one character per joint, \<open>R\<close> for a
  rotational joint and \<open>P\<close> for a prismatic one. On the docstring's own sequence
  \<^verbatim>\<open>tz() * tx(1) * rz() * tx(1)\<close>, whose joints are a translation and then a rotation,
  \<^verbatim>\<open>config\<close> returns \<open>PP\<close>, where the claim gives \<open>PR\<close>: every character is
  decided by the first element of the whole sequence.
\<close>

theorem config_docstring_example:
  "bind ets_tz_tx_rz_tx config = Inr ''PP''
   \<and> bind ets_tz_tx_rz_tx (\<lambda>S. Inr (config_spec S)) = Inr ''PR''"
  by (simp add: ets_tz_tx_rz_tx_eq config_def joints_def property_defs config_spec_def)

section \<open>Accessors of a sequence\<close>

text \<open>
  C10. On a sequence of length at least two, each of \<^verbatim>\<open>eta\<close>, \<^verbatim>\<open>axis\<close>,
  \<^verbatim>\<open>isjoint\<close>, \<^verbatim>\<open>isrevolute\<close>, \<^verbatim>\<open>isprismatic\<close> and \<^verbatim>\<open>isconstant\<close> gives what
  it gives on the length-one sequence \<^verbatim>\<open>S[0]\<close>, whatever the other elements are.
\<close>

theorem accessors_report_first_element:
  "2 \<le> length S \<Longrightarrow>
     eta S = bind (getitem S 0) eta
     \<and> axis S = bind (getitem S 0) axis
     \<and> isjoint S = bind (getitem S 0) isjoint
     \<and> isrevolute S = bind (getitem S 0) isrevolute
     \<and> isprismatic S = bind (getitem S 0) isprismatic
     \<and> isconstant S = bind (getitem S 0) isconstant"
  by (cases S) (simp_all add: getitem_def property_defs)

theorem accessors_report_first_element_witness:
  "2 \<le> length [fixed_elem tx_func ''tx'' (PyInt 1), joint_elem trotz ''Rz'']
   \<and> isjoint [fixed_elem tx_func ''tx'' (PyInt 1), joint_elem trotz ''Rz'']
       = bind (getitem [fixed_elem tx_func ''tx'' (PyInt 1), joint_elem trotz ''Rz''] 0) isjoint
   \<and> isjoint [fixed_elem tx_func ''tx'' (PyInt 1), joint_elem trotz ''Rz''] = Inr False
   \<and> isprismatic [fixed_elem tx_func ''tx'' (PyInt 1), joint_elem trotz ''Rz''] = Inr True
   \<and> isrevolute [fixed_elem tx_func ''tx'' (PyInt 1), joint_elem trotz ''Rz''] = Inr False"
  using accessors_report_first_element
    [of "[fixed_elem tx_func ''tx'' (PyInt 1), joint_elem trotz ''Rz'']"]
  by (simp add: getitem_def property_defs)

section \<open>Forward kinematics\<close>

text \<open>
  C7. For \<^verbatim>\<open>rz() * tx(1) * rz() * tx(1)\<close>: \<^verbatim>\<open>eval([0, 0])\<close> is the identity rotation
  with translation (2, 0, 0); \<^verbatim>\<open>eval([pi/2, -pi/2])\<close> is the identity rotation with
  translation (1, 1, 0); \<^verbatim>\<open>eval([90, -90], 'deg')\<close> is the same pose as the call in
  radians. The running transform is a float array, over the reals here, so the values
  are exact.
\<close>

theorem eval_two_link_example:
  "bind ets_rz_tx_rz_tx (\<lambda>S. eval S (Some [0, 0]) ''rad'')
     = Inr (Mat4 1 0 0 2  0 1 0 0  0 0 1 0  0 0 0 1)
   \<and> bind ets_rz_tx_rz_tx (\<lambda>S. eval S (Some [pi / 2, - pi / 2]) ''rad'')
     = Inr (Mat4 1 0 0 1  0 1 0 1  0 0 1 0  0 0 0 1)
   \<and> bind ets_rz_tx_rz_tx (\<lambda>S. eval S (Some [90, - 90]) ''deg'')
     = bind ets_rz_tx_rz_tx (\<lambda>S. eval S (Some [pi / 2, - pi / 2]) ''rad'')"
  by (simp add: ets_rz_tx_rz_tx_eq eval_def property_defs getvector_def ETS_T_def
      eye4_def trotz_def to_float_def SE3_def ishom_def)

text \<open>
  How the loop of \<^verbatim>\<open>eval\<close> uses the coordinate vector: it fails when the vector runs
  out, and never looks at what is left over.
\<close>

lemma eval_loop_lengths:
  "list_all well_formed S \<Longrightarrow>
     (length q < length (filter et_joint S) \<longrightarrow> eval_loop S (Some q) u T = Inl IndexError)
     \<and> (length (filter et_joint S) \<le> length q \<longrightarrow>
          (\<exists>M. eval_loop S (Some q) u T = Inr M
             \<and> eval_loop S (Some (take (length (filter et_joint S)) q)) u T = Inr M))"
proof (induction S arbitrary: q T)
  case Nil
  then show ?case by simp
next
  case (Cons e es)
  then have wf: "well_formed e" and wfs: "list_all well_formed es"
    by simp_all
  show ?case
  proof (cases "et_joint e")
    case False
    with wf obtain M where M: "et_T e = Some M"
      by (auto simp: well_formed_def)
    from Cons.IH [OF wfs, of q "array_matmul T M"] False M show ?thesis
      by simp
  next
    case True
    show ?thesis
    proof (cases q)
      case Nil
      with True show ?thesis by simp
    next
      case (Cons qj qs)
      from isrevolute_wf [OF wf True] obtain r where r: "isrevolute [e] = Inr r"
        by blast
      from ETS_T_joint_wf [OF wf True]
      obtain M where M:
        "ETS_T [e] (Some (PyFloat (if r \<and> u = ''deg'' then qj * (pi / 180) else qj)))
           = Inr (Some M)"
        by blast
      from Cons.IH [OF wfs, of qs "array_matmul T M"] True Cons r M show ?thesis
        by (simp add: Let_def)
    qed
  qed
qed

text \<open>
  C8, as stated: \<^verbatim>\<open>eval(q)\<close> fails whenever the length of \<^verbatim>\<open>q\<close> differs from the
  number of joints. It does not: on the single joint \<^verbatim>\<open>rz()\<close> the two-entry vector
  \<^verbatim>\<open>[0, 7]\<close> is accepted and the second entry is ignored.
\<close>

theorem eval_accepts_longer_vector:
  "length [0, 7 :: real] \<noteq> length (joints [joint_elem trotz ''Rz''])
   \<and> eval [joint_elem trotz ''Rz''] (Some [0, 7]) ''rad'' = Inr eye4"
  by (simp add: joints_def eval_def getvector_def property_defs ETS_T_def eye4_def trotz_def
      SE3_def ishom_def)

text \<open>
  The loop keeps the running transform rigid when every element is.
\<close>

lemma eval_loop_ishom:
  "list_all rigid S \<Longrightarrow> ishom T \<Longrightarrow> eval_loop S q u (FloatArr T) = Inr A \<Longrightarrow>
     \<exists>M. A = FloatArr M \<and> ishom M"
proof (induction S arbitrary: q T)
  case Nil
  then show ?case by auto
next
  case (Cons e es)
  then have r: "rigid e" and rs: "list_all rigid es"
    by simp_all
  show ?case
  proof (cases "et_joint e")
    case False
    with r obtain N where N: "et_T e = Some N" "ishom (as_float N)"
      by (auto simp: rigid_def split: option.splits)
    with False Cons.prems(3)
    have "eval_loop es q u (FloatArr (matmul T (as_float N))) = Inr A"
      by (simp add: ETS_T_def property_defs)
    with Cons.IH [OF rs ishom_matmul [OF Cons.prems(2) N(2)]] show ?thesis .
  next
    case True
    with r obtain f where f: "et_axis_func e = Some f" "\<And>v. ishom (as_float (f v))"
      by (auto simp: rigid_def split: option.splits)
    from True Cons.prems(3) obtain qj qs where q: "q = Some (qj # qs)"
      by (cases q; cases "the q") (simp_all add: property_defs)
    from True Cons.prems(3) q obtain rv where rv: "isrevolute [e] = Inr rv"
      by (cases "isrevolute [e]") (simp_all add: property_defs)
    let ?v = "PyFloat (if rv \<and> u = ''deg'' then qj * (pi / 180) else qj)"
    from True Cons.prems(3) q rv f(1)
    have "eval_loop es (Some qs) u (FloatArr (matmul T (as_float (f ?v)))) = Inr A"
      by (simp add: ETS_T_def property_defs Let_def)
    with Cons.IH [OF rs ishom_matmul [OF Cons.prems(2) f(2)]] show ?thesis .
  qed
qed

text \<open>With rigid elements and enough coordinates, \<^verbatim>\<open>eval\<close> returns a pose.\<close>

lemma eval_succeeds:
  assumes "list_all well_formed S" "list_all rigid S" "length (joints S) \<le> length q"
  shows "\<exists>M. eval S (Some q) unit = Inr M"
proof -
  from eval_loop_lengths [OF assms(1), of q unit "FloatArr eye4"] assms(3)
  obtain A where A: "eval_loop S (Some q) unit (FloatArr eye4) = Inr A"
    by (auto simp: length_joints)
  from eval_loop_ishom [OF assms(2) ishom_eye4 A]
  obtain M where "A = FloatArr M" "ishom M"
    by blast
  with A show ?thesis
    by (simp add: eval_def getvector_def)
qed

text \<open>
  C8, amended. On a sequence of well-formed elements, \<^verbatim>\<open>eval(q)\<close> raises IndexError
  when \<^verbatim>\<open>q\<close> has fewer entries than there are joints; when \<^verbatim>\<open>q\<close> has at least as
  many entries, the result is that of the first \<^verbatim>\<open>joint_count\<close> entries alone, the
  surplus being ignored; and that result is a pose, not an error, when the elements are
  rigid (so in particular when the length matches).
\<close>

theorem eval_length_behaviour:
  assumes "list_all well_formed S"
  shows "(length q < length (joints S) \<longrightarrow> eval S (Some q) unit = Inl IndexError)
       \<and> (length (joints S) \<le> length q \<longrightarrow>
            eval S (Some q) unit = eval S (Some (take (length (joints S)) q)) unit)
       \<and> (length (joints S) \<le> length q \<and> list_all rigid S \<longrightarrow>
            (\<exists>M. eval S (Some q) unit = Inr M))"
proof -
  note loop = eval_loop_lengths [OF assms, of q unit "FloatArr eye4"]
  have short: "eval S (Some q) unit = Inl IndexError" if "length q < length (joints S)"
    using loop that by (simp add: eval_def getvector_def length_joints)
  have long: "eval S (Some q) unit = eval S (Some (take (length (joints S)) q)) unit"
    if "length (joints S) \<le> length q"
    using loop that by (auto simp: eval_def getvector_def length_joints)
  have ok: "\<exists>M. eval S (Some q) unit = Inr M"
    if "length (joints S) \<le> length q" "list_all rigid S"
    using assms that(2,1) by (rule eval_succeeds)
  from short long ok show ?thesis by blast
qed

theorem eval_length_behaviour_witness:
  "list_all well_formed
     [joint_elem trotz ''Rz'', fixed_elem tx_func ''tx'' (PyInt 1),
      joint_elem trotz ''Rz'', fixed_elem tx_func ''tx'' (PyInt 1)]
   \<and> list_all rigid
     [joint_elem trotz ''Rz'', fixed_elem tx_func ''tx'' (PyInt 1),
      joint_elem trotz ''Rz'', fixed_elem tx_func ''tx'' (PyInt 1)]
   \<and> length [0 :: real]
       < length (joints [joint_elem trotz ''Rz'', fixed_elem tx_func ''tx'' (PyInt 1),
                         joint_elem trotz ''Rz'', fixed_elem tx_func ''tx'' (PyInt 1)])
   \<and> eval [joint_elem trotz ''Rz'', fixed_elem tx_func ''tx'' (PyInt 1),
            joint_elem trotz ''Rz'', fixed_elem tx_func ''tx'' (PyInt 1)] (Some [0]) ''rad''
       = Inl IndexError
   \<and> length (joints [joint_elem trotz ''Rz'', fixed_elem tx_func ''tx'' (PyInt 1),
                      joint_elem trotz ''Rz'', fixed_elem tx_func ''tx'' (PyInt 1)])
       \<le> length [0, 0, 5 :: real]
   \<and> eval [joint_elem trotz ''Rz'', fixed_elem tx_func ''tx'' (PyInt 1),
            joint_elem trotz ''Rz'', fixed_elem tx_func ''tx'' (PyInt 1)] (Some [0, 0, 5]) ''rad''
       = eval [joint_elem trotz ''Rz'', fixed_elem tx_func ''tx'' (PyInt 1),
               joint_elem trotz ''Rz'', fixed_elem tx_func ''tx'' (PyInt 1)] (Some [0, 0]) ''rad''
   \<and> (\<exists>M. eval [joint_elem trotz ''Rz'', fixed_elem tx_func ''tx'' (PyInt 1),
                 joint_elem trotz ''Rz'', fixed_elem tx_func ''tx'' (PyInt 1)] (Some [0, 0, 5]) ''rad''
            = Inr M)"
proof -
  let ?S = "[joint_elem trotz ''Rz'', fixed_elem tx_func ''tx'' (PyInt 1),
             joint_elem trotz ''Rz'', fixed_elem tx_func ''tx'' (PyInt 1)]"
  have wf: "list_all well_formed ?S"
    by (simp add: well_formed_def)
  have "rigid (joint_elem trotz ''Rz'')"
    by (simp add: ishom_rotations)
  moreover have "rigid (fixed_elem tx_func ''tx'' (PyInt 1))"
    by (simp add: rigid_def ishom_def to_float_def)
  ultimately have rg: "list_all rigid ?S"
    by simp
  have n: "length (joints ?S) = 2"
    by (simp add: joints_def)
  from eval_length_behaviour [OF wf, of "[0]" "''rad''"] n
  have short: "eval ?S (Some [0]) ''rad'' = Inl IndexError"
    by simp
  note at_long = eval_length_behaviour [OF wf, of "[0, 0, 5]" "''rad''"]
  from at_long n
  have long: "eval ?S (Some [0, 0, 5]) ''rad'' = eval ?S (Some [0, 0]) ''rad''"
    by (simp add: numeral_2_eq_2)
  have len: "length (joints ?S) \<le> length [0, 0, 5 :: real]"
    using n by simp
  from at_long len rg
  have ok: "\<exists>M. eval ?S (Some [0, 0, 5]) ''rad'' = Inr M"
    by blast
  from wf rg n short long ok show ?thesis
    by simp
qed

section \<open>Constant folding\<close>

lemma compile_loop_fold_consts:
  "list_all built S \<Longrightarrow> compile_loop S c acc = Inr (acc @ fold_consts S c)"
proof (induction S arbitrary: c acc)
  case Nil
  then show ?case by (simp add: flush_def imul_def split: option.splits)
next
  case (Cons e es)
  show ?case
  proof (cases "et_joint e")
    case True
    with Cons show ?thesis
      by (simp add: flush_def imul_def split: option.splits)
  next
    case False
    with Cons.prems obtain M where M: "et_T e = Some M"
      by (auto simp: built_def)
    with False Cons show ?thesis
      by (simp split: option.splits)
  qed
qed

lemma compile_fold_consts:
  "list_all built S \<Longrightarrow> compile S = Inr (fold_consts S None)"
  by (simp add: compile_def compile_loop_fold_consts)

lemma eval_loop_const [simp]:
  "eval_loop (const_elem A # es) q u (FloatArr T)
     = eval_loop es q u (FloatArr (matmul T (as_float A)))"
  by simp

lemma eval_loop_joint_cong:
  assumes "\<And>q' T'. eval_loop X q' u (FloatArr T') = eval_loop Y q' u (FloatArr T')"
    and "et_joint e"
  shows "eval_loop (e # X) q u (FloatArr T) = eval_loop (e # Y) q u (FloatArr T)"
  using assms
  by (auto simp: bind_def Let_def matmul_opt_def split: sum.splits option.splits list.splits)

lemma eval_loop_fold_consts:
  "list_all built S \<Longrightarrow> no_wrap S c \<Longrightarrow>
     eval_loop (fold_consts S c) q u (FloatArr T) = eval_loop (flush c @ S) q u (FloatArr T)"
proof (induction S arbitrary: c q T)
  case Nil
  then show ?case by simp
next
  case (Cons e es)
  show ?case
  proof (cases "et_joint e")
    case True
    with Cons.prems have "list_all built es" "no_wrap es None"
      by simp_all
    then have tail: "eval_loop (fold_consts es None) q' u (FloatArr T')
        = eval_loop es q' u (FloatArr T')" for q' T'
      using Cons.IH [of None q' T'] by (simp add: flush_def)
    from eval_loop_joint_cong [of "fold_consts es None" u es e, OF tail True] True
    show ?thesis
      by (cases c) (simp_all add: flush_def)
  next
    case False
    with Cons.prems obtain B where B: "et_T e = Some B"
      by (auto simp: built_def)
    show ?thesis
    proof (cases c)
      case None
      with False B Cons.prems Cons.IH [of "Some B" q T] show ?thesis
        by (simp add: flush_def)
    next
      case (Some A)
      with False B Cons.prems
      have exact: "as_float (array_matmul A B) = matmul (as_float A) (as_float B)"
        and rest: "no_wrap es (Some (array_matmul A B))" "list_all built es"
        by simp_all
      from Cons.IH [OF rest(2,1), of q T] Some False B exact show ?thesis
        by (simp add: flush_def matmul_assoc)
    qed
  qed
qed

lemma filter_joint_fold_consts:
  "filter et_joint (fold_consts S c) = filter et_joint S"
  by (induction S arbitrary: c) (simp_all add: flush_def split: option.splits)

lemma built_fold_consts:
  "list_all built S \<Longrightarrow> list_all built (fold_consts S c)"
  by (induction S arbitrary: c) (simp_all add: flush_def split: option.splits)

lemma length_fold_consts_le:
  "length (fold_consts S c) \<le> length (flush c) + length S"
proof (induction S arbitrary: c)
  case Nil
  then show ?case by simp
next
  case (Cons e es)
  show ?case
  proof (cases "et_joint e")
    case True
    with Cons [of None] show ?thesis by (simp add: flush_def)
  next
    case False
    then show ?thesis
      using Cons [of "case c of None \<Rightarrow> et_T e
                        | Some M \<Rightarrow> Some (array_matmul M (the (et_T e)))"]
      by (cases c) (auto simp: flush_def split: option.splits)
  qed
qed

lemma consecutive_constants_head:
  "et_joint a = et_joint b \<Longrightarrow> consecutive_constants (a # es) = consecutive_constants (b # es)"
  by (cases es) simp_all

lemma length_fold_consts_less:
  "list_all built S \<Longrightarrow> consecutive_constants (flush c @ S) \<Longrightarrow>
     length (fold_consts S c) < length (flush c) + length S"
proof (induction S arbitrary: c)
  case Nil
  then show ?case by (simp add: flush_def split: option.splits)
next
  case (Cons e es)
  show ?case
  proof (cases "et_joint e")
    case True
    have "consecutive_constants (flush None @ es)"
      using Cons.prems(2) True by (cases es) (auto simp: flush_def split: option.splits)
    with Cons.IH [of None] Cons.prems(1) True show ?thesis
      by (simp add: flush_def)
  next
    case False
    with Cons.prems obtain M where M: "et_T e = Some M"
      by (auto simp: built_def)
    show ?thesis
    proof (cases c)
      case None
      have "consecutive_constants (flush (Some M) @ es)"
        using Cons.prems(2) None False
          consecutive_constants_head [of e "const_elem M" es]
        by (simp add: flush_def)
      with Cons.IH [of "Some M"] Cons.prems(1) None False M show ?thesis
        by (simp add: flush_def)
    next
      case (Some C)
      with length_fold_consts_le [of es "Some (array_matmul C M)"] False M show ?thesis
        by (simp add: flush_def)
    qed
  qed
qed

lemma fold_consts_idem:
  "list_all built S \<Longrightarrow> fold_consts (fold_consts S c) None = fold_consts S c"
proof (induction S arbitrary: c)
  case Nil
  then show ?case by (simp add: flush_def split: option.splits)
next
  case (Cons e es)
  show ?case
  proof (cases "et_joint e")
    case True
    with Cons show ?thesis
      by (cases c) (simp_all add: flush_def)
  next
    case False
    with Cons show ?thesis by simp
  qed
qed

text \<open>
  C1. The claim: \<^verbatim>\<open>compile(S)\<close> evaluates to the same pose as \<open>S\<close>. On
  \<^verbatim>\<open>S = tx(2**62) * tx(2**62)\<close>, two constants given as Python ints and no joint, with
  the empty coordinate vector: the two cached arrays are int64 arrays and \<^verbatim>\<open>compile\<close>
  multiplies them in int64, so the folded translation wraps around to \<open>- 2 ^ 63\<close>,
  and that is what \<^verbatim>\<open>compile(S).eval([])\<close> returns, while \<^verbatim>\<open>S.eval([])\<close>, which
  multiplies from the float identity on, returns \<open>2 ^ 63\<close>.
\<close>

theorem compile_wraps_int64:
  "bind ets_tx_tx_big (\<lambda>S. bind (compile S) (\<lambda>C. eval C (Some []) ''rad''))
     = Inr (Mat4 1 0 0 (- 9223372036854775808)  0 1 0 0  0 0 1 0  0 0 0 1)
   \<and> bind ets_tx_tx_big (\<lambda>S. eval S (Some []) ''rad'')
     = Inr (Mat4 1 0 0 9223372036854775808  0 1 0 0  0 0 1 0  0 0 0 1)"
  by (simp add: ets_tx_tx_big_eq compile_def imul_def eval_def getvector_def to_float_def
      eye4_def SE3_def ishom_def)

text \<open>
  The rest of what the claim says holds for every sequence of elements as
  \<^verbatim>\<open>__init__\<close> builds them: \<^verbatim>\<open>compile\<close> returns a sequence with the same joint
  elements in the same order, strictly shorter when two non-joint elements are next to
  each other.
\<close>

lemma compile_keeps_joints:
  assumes "list_all built S"
  shows "\<exists>C. compile S = Inr C
           \<and> filter et_joint C = filter et_joint S
           \<and> length (joints C) = length (joints S)
           \<and> (consecutive_constants S \<longrightarrow> length C < length S)"
proof -
  let ?C = "fold_consts S None"
  have "compile S = Inr ?C"
    using assms by (rule compile_fold_consts)
  moreover have "filter et_joint ?C = filter et_joint S"
    by (rule filter_joint_fold_consts)
  moreover have "length (joints ?C) = length (joints S)"
    by (simp add: length_joints filter_joint_fold_consts)
  moreover have "consecutive_constants S \<longrightarrow> length ?C < length S"
    using length_fold_consts_less [OF assms, of None] by (simp add: flush_def)
  ultimately show ?thesis by blast
qed

text \<open>
  And the poses agree whenever no product of the folding wraps around, as when the
  constants are small ints or floats.
\<close>

lemma compile_preserves_eval_without_wrap:
  assumes "list_all built S" "no_wrap S None"
  shows "\<exists>C. compile S = Inr C \<and> (\<forall>q unit. eval C q unit = eval S q unit)"
proof -
  have "compile S = Inr (fold_consts S None)"
    using assms(1) by (rule compile_fold_consts)
  moreover have "eval (fold_consts S None) q unit = eval S q unit" for q unit
    using eval_loop_fold_consts [OF assms, of _ unit eye4] by (simp add: eval_def flush_def)
  ultimately show ?thesis by blast
qed

lemma compile_example:
  "compile [joint_elem trotz ''Rz'', fixed_elem tx_func ''tx'' (PyInt 1),
            fixed_elem tz_func ''tz'' (PyInt 2)]
     = Inr [joint_elem trotz ''Rz'',
            const_elem (IntArr (Mat4 1 0 0 1  0 1 0 0  0 0 1 2  0 0 0 1))]
   \<and> no_wrap [joint_elem trotz ''Rz'', fixed_elem tx_func ''tx'' (PyInt 1),
              fixed_elem tz_func ''tz'' (PyInt 2)] None"
  by (simp add: compile_def imul_def to_float_def)

text \<open>
  C9. Compiling is idempotent: for a sequence \<open>S\<close> of elements as \<^verbatim>\<open>__init__\<close>
  builds them, compiling \<open>compile(S)\<close> again returns a sequence with the same number
  of elements and the same result of \<^verbatim>\<open>eval\<close> for every coordinate vector; it returns
  \<open>compile(S)\<close> itself.
\<close>

theorem compile_idempotent:
  assumes "list_all built S"
  shows "\<exists>C C'. compile S = Inr C \<and> compile C = Inr C'
           \<and> length C' = length C
           \<and> (\<forall>q unit. eval C' q unit = eval C q unit)
           \<and> C' = C"
proof -
  let ?C = "fold_consts S None"
  have 1: "compile S = Inr ?C"
    using assms by (rule compile_fold_consts)
  have "list_all built ?C"
    using assms by (rule built_fold_consts)
  then have "compile ?C = Inr (fold_consts ?C None)"
    by (rule compile_fold_consts)
  then have 2: "compile ?C = Inr ?C"
    using fold_consts_idem [OF assms, of None] by simp
  from 1 2 show ?thesis by simp
qed

theorem compile_idempotent_witness:
  "list_all built
     [fixed_elem tz_func ''tz'' (PyInt 3), joint_elem trotz ''Rz'',
      fixed_elem tx_func ''tx'' (PyInt 1), fixed_elem tz_func ''tz'' (PyInt 2)]
   \<and> (\<exists>C C'. compile
              [fixed_elem tz_func ''tz'' (PyInt 3), joint_elem trotz ''Rz'',
               fixed_elem tx_func ''tx'' (PyInt 1), fixed_elem tz_func ''tz'' (PyInt 2)]
              = Inr C
          \<and> compile C = Inr C' \<and> length C' = length C
          \<and> (\<forall>q unit. eval C' q unit = eval C q unit))"
proof -
  let ?S = "[fixed_elem tz_func ''tz'' (PyInt 3), joint_elem trotz ''Rz'',
             fixed_elem tx_func ''tx'' (PyInt 1), fixed_elem tz_func ''tz'' (PyInt 2)]"
  have wf: "list_all built ?S"
    by (simp add: built_def)
  from compile_idempotent [OF wf] wf show ?thesis
    by blast
qed

section \<open>The Jacobian\<close>

text \<open>
  C2. The claim: \<^verbatim>\<open>jacob0(q)\<close> walks the sequence with a running transform and fills
  one column per joint. On the single revolute joint \<^verbatim>\<open>rz()\<close> with \<^verbatim>\<open>q = [0]\<close> the
  method raises UnboundLocalError at its first statement, before any walk.
\<close>

theorem jacob0_single_joint_raises:
  "bind (rz None ''rad'') (\<lambda>S. jacob0 linv S (Some [0]) None) = Inl UnboundLocalError"
  by (simp add: joint_factories jacob0_def unbound_local_def)

text \<open>
  C3. The claim: on a sequence without joints \<^verbatim>\<open>jacob0\<close> returns a 6 x 0 matrix and
  does not raise. On \<^verbatim>\<open>tx(1)\<close> with the empty coordinate vector it raises
  UnboundLocalError.
\<close>

theorem jacob0_no_joint_raises:
  "bind (tx (Some (PyInt 1))) (\<lambda>S. Inr (joints S, jacob0 linv S (Some []) None))
     = Inr ([], Inl UnboundLocalError)"
  by (simp add: fixed_factories jacob0_def unbound_local_def joints_def)

text \<open>The method raises on every input.\<close>

lemma jacob0_always_raises: "jacob0 linv S q T = Inl UnboundLocalError"
  by (simp add: jacob0_def unbound_local_def)

text \<open>
  Past that first statement: on a sequence with a joint the rest of the body raises at
  \<^verbatim>\<open>self.n\<close>; on a sequence of rigid constants it returns the matrix without columns.
\<close>

lemma jacob0_rest_with_joints:
  "list_ex et_joint S \<Longrightarrow> jacob0_rest linv S q T offset = Inl TypeError"
  by (simp add: jacob0_rest_def ETS_n_eq)

lemma jacob0_loop_no_joints:
  "list_all well_formed S \<Longrightarrow> \<not> list_ex et_joint S \<Longrightarrow>
     jacob0_loop linv T q S U j J = Inr J"
proof (induction S arbitrary: U)
  case Nil
  then show ?case by simp
next
  case (Cons e es)
  then obtain M where "et_T e = Some M"
    by (auto simp: well_formed_def)
  with Cons show ?case by simp
qed

lemma joints_empty: "\<not> list_ex et_joint S \<Longrightarrow> joints S = []"
  using length_joints [of S] by (simp add: list_ex_iff filter_empty_conv)

lemma jacob0_rest_no_joints:
  assumes "list_all well_formed S" "list_all rigid S" "\<not> list_ex et_joint S"
  shows "jacob0_rest linv S (Some []) None offset = Inr []"
proof -
  from eval_succeeds [OF assms(1,2), of "[]" "''rad''"] joints_empty [OF assms(3)]
  obtain M where M: "eval S (Some []) ''rad'' = Inr M"
    by auto
  have n: "ETS_n S = Inr 0"
    using assms(3) by (simp add: ETS_n_eq)
  show ?thesis
    by (simp add: jacob0_rest_def n getvector_def M jacob0_loop_no_joints [OF assms(1,3)])
qed

text \<open>
  The loop on its own, for \<^verbatim>\<open>rz() * rx()\<close> at \<^verbatim>\<open>q = [0, 0]\<close> with the identity as
  end pose: the columns hold the two joint axes.
\<close>

lemma jacob0_loop_example:
  "linv eye4 = Some eye4 \<Longrightarrow>
   jacob0_loop linv eye4 [0, 0] [joint_elem trotz ''Rz'', joint_elem trotx ''Rx'']
     (FloatArr eye4) 0 (replicate 2 (zero3, zero3))
   = Inr [((0, 0, 0), (0, 0, 1)), ((0, 0, 0), (1, 0, 0))]"
  by (simp add: property_defs trotz_def trotx_def eye4_def jacob0_column_def zero3_def
      numeral_2_eq_2)

section \<open>The Hessian\<close>

text \<open>
  C6. The claim: in the tensor returned by \<^verbatim>\<open>hessian0\<close> the entries for \<open>i > j\<close> are
  mirrored. On the two revolute joints \<^verbatim>\<open>rz() * rx()\<close> the method returns no tensor:
  called with \<^verbatim>\<open>q = [0, 0]\<close>, or with the Jacobian of that configuration, it raises
  TypeError at its first statement \<^verbatim>\<open>n = self.n\<close>.
\<close>

theorem hessian0_two_joints_raises:
  "bind ets_rz_rx (\<lambda>S. hessian0 linv S (Some [0, 0]) None) = Inl TypeError
   \<and> bind ets_rz_rx (\<lambda>S. hessian0 linv S None
        (Some [((0, 0, 0), (0, 0, 1)), ((0, 0, 0), (1, 0, 0))])) = Inl TypeError"
  by (simp add: ets_rz_rx_eq hessian0_def ETS_n_eq)

text \<open>
  The method returns on no input at all: with a joint it raises at \<^verbatim>\<open>self.n\<close>,
  without one at \<^verbatim>\<open>verifymatrix\<close>, at \<^verbatim>\<open>self.q\<close>, at \<^verbatim>\<open>getvector\<close> or in
  \<^verbatim>\<open>jacob0\<close>.
\<close>

lemma hessian0_raises_with_joints:
  "list_ex et_joint S \<Longrightarrow> hessian0 linv S q J0 = Inl TypeError"
  by (simp add: hessian0_def ETS_n_eq)

lemma hessian0_always_raises: "\<exists>e. hessian0 linv S q J0 = Inl e"
  by (cases J0; cases q)
     (auto simp: hessian0_def ETS_n_eq verifymatrix_def jacob0_always_raises getvector_def)

text \<open>
  What the two nested loops would build from a Jacobian of \<open>n\<close> columns, entry by
  entry: the upper block is written at \<open>(i, j)\<close> and copied to \<open>(j, i)\<close>, the lower
  block is written at \<open>(i, j)\<close> only.
\<close>

lemma dims_zeros: "dims n (replicate n (replicate n z))"
  by (simp add: dims_def)

lemma set_upper_dims: "dims n H \<Longrightarrow> dims n (set_upper H i j v)"
  by (cases "i < length H") (auto simp: dims_def set_upper_def nth_list_update)

lemma set_lower_dims: "dims n H \<Longrightarrow> dims n (set_lower H i j v)"
  by (cases "i < length H") (auto simp: dims_def set_lower_def nth_list_update)

lemma set_upper_nth:
  "dims n H \<Longrightarrow> i < n \<Longrightarrow> j < n \<Longrightarrow> a < n \<Longrightarrow> b < n \<Longrightarrow>
     set_upper H i j v ! a ! b = (if a = i \<and> b = j then (v, snd (H ! i ! j)) else H ! a ! b)"
  by (auto simp: dims_def set_upper_def nth_list_update)

lemma set_lower_nth:
  "dims n H \<Longrightarrow> i < n \<Longrightarrow> j < n \<Longrightarrow> a < n \<Longrightarrow> b < n \<Longrightarrow>
     set_lower H i j v ! a ! b = (if a = i \<and> b = j then (fst (H ! i ! j), v) else H ! a ! b)"
  by (auto simp: dims_def set_lower_def nth_list_update)

lemma body_dims: "dims n H \<Longrightarrow> dims n (hessian0_body J0 j i H)"
  by (simp add: hessian0_body_def Let_def set_upper_dims set_lower_dims)

lemma body_nth:
  assumes "dims n H" "i < n" "j < n" "a < n" "b < n"
  shows "hessian0_body J0 j i H ! a ! b =
     (if a = i \<and> b = j then (upper_entry J0 j i, lower_entry J0 j i)
      else if a = j \<and> b = i then (upper_entry J0 j i, snd (H ! j ! i))
      else H ! a ! b)"
proof -
  let ?H1 = "set_upper H i j (upper_entry J0 j i)"
  let ?H2 = "set_lower ?H1 i j (lower_entry J0 j i)"
  have d1: "dims n ?H1"
    using assms(1) by (rule set_upper_dims)
  have d2: "dims n ?H2"
    using d1 by (rule set_lower_dims)
  have h1: "?H1 ! x ! y = (if x = i \<and> y = j then (upper_entry J0 j i, snd (H ! i ! j))
                           else H ! x ! y)" if "x < n" "y < n" for x y
    using set_upper_nth [OF assms(1-3) that] .
  have h2: "?H2 ! x ! y = (if x = i \<and> y = j then (upper_entry J0 j i, lower_entry J0 j i)
                           else H ! x ! y)" if "x < n" "y < n" for x y
    using set_lower_nth [OF d1 assms(2,3) that] h1 [OF that] h1 [OF assms(2,3)] by simp
  have body: "hessian0_body J0 j i H =
      (if i \<noteq> j then set_upper ?H2 j i (fst (?H2 ! i ! j)) else ?H2)"
    by (simp add: hessian0_body_def Let_def upper_entry_def lower_entry_def)
  show ?thesis
  proof (cases "i = j")
    case True
    with body h2 [OF assms(4,5)] show ?thesis by simp
  next
    case False
    have "hessian0_body J0 j i H ! a ! b =
        (if a = j \<and> b = i then (fst (?H2 ! i ! j), snd (?H2 ! j ! i)) else ?H2 ! a ! b)"
      using body False set_upper_nth [OF d2 assms(3,2,4,5)] by simp
    with False h2 [OF assms(4,5)] h2 [OF assms(2,3)] h2 [OF assms(3,2)] show ?thesis
      by auto
  qed
qed

lemma inner_loop:
  assumes "dims n H" "j \<le> m" "m \<le> n"
  shows "dims n (fold (hessian0_body J0 j) [j..<m] H)
     \<and> (\<forall>a<n. \<forall>b<n. fold (hessian0_body J0 j) [j..<m] H ! a ! b =
          (if b = j \<and> j \<le> a \<and> a < m then (upper_entry J0 j a, lower_entry J0 j a)
           else if a = j \<and> j < b \<and> b < m then (upper_entry J0 j b, snd (H ! j ! b))
           else H ! a ! b))"
  using assms(2,3)
proof (induction m)
  case 0
  with assms(1) show ?case by simp
next
  case (Suc m)
  show ?case
  proof (cases "j \<le> m")
    case False
    with Suc.prems have "j = Suc m" by simp
    with assms(1) show ?thesis by auto
  next
    case True
    let ?H = "fold (hessian0_body J0 j) [j..<m] H"
    from Suc.IH True Suc.prems have d: "dims n ?H"
      and v: "\<And>a b. a < n \<Longrightarrow> b < n \<Longrightarrow> ?H ! a ! b =
          (if b = j \<and> j \<le> a \<and> a < m then (upper_entry J0 j a, lower_entry J0 j a)
           else if a = j \<and> j < b \<and> b < m then (upper_entry J0 j b, snd (H ! j ! b))
           else H ! a ! b)"
      by simp_all
    have step: "fold (hessian0_body J0 j) [j..<Suc m] H = hessian0_body J0 j m ?H"
      using True by simp
    have mn: "m < n" and jn: "j < n"
      using Suc.prems True by simp_all
    show ?thesis
      unfolding step
      using body_dims [OF d, of J0 j m] body_nth [OF d mn jn] v mn jn True
      by auto
  qed
qed

lemma outer_loop:
  assumes "k \<le> n"
  shows "dims n (outer n J0 k)
     \<and> (\<forall>a<n. \<forall>b<n. outer n J0 k ! a ! b =
          (if b < k \<and> b \<le> a then (upper_entry J0 b a, lower_entry J0 b a)
           else if a < k \<and> a < b then (upper_entry J0 a b, zero3)
           else (zero3, zero3)))"
  using assms
proof (induction k)
  case 0
  show ?case by (simp add: outer_def dims_zeros)
next
  case (Suc k)
  let ?H = "outer n J0 k"
  from Suc have d: "dims n ?H"
    and v: "\<And>a b. a < n \<Longrightarrow> b < n \<Longrightarrow> ?H ! a ! b =
          (if b < k \<and> b \<le> a then (upper_entry J0 b a, lower_entry J0 b a)
           else if a < k \<and> a < b then (upper_entry J0 a b, zero3)
           else (zero3, zero3))"
    by simp_all
  have step: "outer n J0 (Suc k) = fold (hessian0_body J0 k) [k..<n] ?H"
    by (simp add: outer_def)
  have kn: "k \<le> n" "k < n" using Suc.prems by simp_all
  from inner_loop [OF d kn(1) order_refl, of J0]
  have d': "dims n (fold (hessian0_body J0 k) [k..<n] ?H)"
    and v': "\<And>a b. a < n \<Longrightarrow> b < n \<Longrightarrow> fold (hessian0_body J0 k) [k..<n] ?H ! a ! b =
          (if b = k \<and> k \<le> a \<and> a < n then (upper_entry J0 k a, lower_entry J0 k a)
           else if a = k \<and> k < b \<and> b < n then (upper_entry J0 k b, snd (?H ! k ! b))
           else ?H ! a ! b)"
    by simp_all
  show ?case
    unfolding step
    using d' v' v kn
    by (auto simp: less_Suc_eq)
qed

lemma hessian0_loops_nth:
  assumes "a < n" "b < n"
  shows "hessian0_loops n J0 ! a ! b =
          (if b \<le> a then (upper_entry J0 b a, lower_entry J0 b a)
           else (upper_entry J0 a b, zero3))"
  using outer_loop [of n n J0] assms
  by (simp add: outer_def hessian0_loops_def)


lemma hessian0_loops_entries:
  assumes "i < n" "j < i"
  shows "fst (hessian0_loops n J0 ! j ! i) = fst (hessian0_loops n J0 ! i ! j)
       \<and> fst (hessian0_loops n J0 ! i ! j) = cross3 (snd (J0 ! j)) (fst (J0 ! i))
       \<and> snd (hessian0_loops n J0 ! i ! j) = cross3 (snd (J0 ! j)) (snd (J0 ! i))
       \<and> snd (hessian0_loops n J0 ! j ! i) = zero3"
proof -
  from assms have jn: "j < n" by simp
  from hessian0_loops_nth [OF assms(1) jn, of J0] hessian0_loops_nth [OF jn assms(1), of J0]
    assms(2)
  show ?thesis
    by (simp add: upper_entry_def lower_entry_def)
qed

lemma hessian0_loops_example:
  "hessian0_loops 2 [((0, 0, 0), (0, 0, 1)), ((0, 0, 0), (1, 0, 0))]
     = [[((0, 0, 0), (0, 0, 0)), ((0, 0, 0), (0, 0, 0))],
        [((0, 0, 0), (0, 1, 0)), ((0, 0, 0), (0, 0, 0))]]"
  by (simp add: hessian0_loops_def hessian0_body_def set_upper_def set_lower_def zero3_def
      numeral_2_eq_2 upt_rec [of 0] upt_rec [of 1] Let_def)

end
